theory Spec2Isabelle
  imports Main "HOL-Library.Word"
begin

section \<open>Data model of package espeak (doc.go)\<close>

text \<open>
  Go's \<^verbatim>\<open>int\<close> is modelled as \<open>int\<close>: the code below only stores and compares
  these values, it never does arithmetic on them, so no overflow can occur.
  \<^verbatim>\<open>uint8\<close>, \<^verbatim>\<open>int16\<close> and \<^verbatim>\<open>uint32\<close> are words of that width.
  The package-level mutex \<^verbatim>\<open>lock\<close> is taken and released inside one call and has no
  effect on a single sequential caller; it is not part of this sequential model.
\<close>

type_synonym byte = "8 word"

record Error =
  Code :: "32 word"
  Message :: string

text \<open>
  Values of Go's interface type \<^verbatim>\<open>error\<close> that occur in the package: a pointer to
  an \<open>Error\<close> of the engine, or a value made by \<^verbatim>\<open>errors.New\<close>.
\<close>

datatype go_error = EspeakError Error | ErrorsNew string

text \<open>
  How a call ends: it returns normally (with a nil error where it has an error result),
  it returns a non-nil error, or it panics with a message.
\<close>

datatype outcome = Done | Failed go_error | Panicked string

type_synonym Gender = "8 word"

definition Unknown :: Gender where "Unknown = 0"
definition Male :: Gender where "Male = 1"
definition Female :: Gender where "Female = 2"
definition Neutral :: Gender where "Neutral = 3"

type_synonym SynthEventType = "8 word"

definition EventEnd :: SynthEventType where "EventEnd = 5"
definition EventMsgTerminated :: SynthEventType where "EventMsgTerminated = 6"

text \<open>\<open>AudioPosition\<close> is a \<^verbatim>\<open>time.Duration\<close>, a count of nanoseconds.\<close>

record SynthEvent =
  Type :: SynthEventType
  TextPosition :: int
  Length :: int
  AudioPosition :: int
  Number :: int
  Name :: string
  Phoneme :: string

text \<open>The anonymous struct of the field \<^verbatim>\<open>voice\<close> of a Context.\<close>

record voice_query =
  name :: string
  language :: string
  gender :: Gender
  age :: "8 word"
  variant :: "8 word"

record Context =
  Samples :: "16 word list"
  Events :: "SynthEvent list"
  rate :: int
  volume :: int
  pitch :: int
  tone :: int
  voice :: voice_query
  isInit :: bool

text \<open>The zero value of a Context: what a caller has before any method is called.\<close>

definition zeroVoice :: voice_query where
  "zeroVoice = \<lparr>name = [], language = [], gender = 0, age = 0, variant = 0\<rparr>"

definition zeroContext :: Context where
  "zeroContext = \<lparr>Samples = [], Events = [], rate = 0, volume = 0, pitch = 0, tone = 0,
     voice = zeroVoice, isInit = False\<rparr>"

section \<open>Lazy initialisation, getters and setters\<close>

text \<open>
  A method with a pointer receiver mutates the Context; here each method takes the
  Context and returns the Context it leaves behind, next to its result.
\<close>

definition init :: "Context \<Rightarrow> Context" where
  "init ctx =
     (if isInit ctx then ctx
      else ctx\<lparr>isInit := True, rate := 175, volume := 100, pitch := 50, tone := 50\<rparr>)"

definition Rate :: "Context \<Rightarrow> int \<times> Context" where
  "Rate ctx = (let ctx1 = init ctx in (rate ctx1, ctx1))"

definition Volume :: "Context \<Rightarrow> int \<times> Context" where
  "Volume ctx = (let ctx1 = init ctx in (volume ctx1, ctx1))"

definition Pitch :: "Context \<Rightarrow> int \<times> Context" where
  "Pitch ctx = (let ctx1 = init ctx in (pitch ctx1, ctx1))"

definition Range_ctx :: "Context \<Rightarrow> int \<times> Context" where
  "Range_ctx ctx = (let ctx1 = init ctx in (tone ctx1, ctx1))"

text \<open>A setter panics before it touches the Context, or initialises and stores.\<close>

definition SetRate :: "int \<Rightarrow> Context \<Rightarrow> outcome \<times> Context" where
  "SetRate wpm ctx =
     (if wpm < 80 \<or> wpm > 450
      then (Panicked ''espeak: Context.SetRate: wpm must be between 80 and 450'', ctx)
      else (Done, (init ctx)\<lparr>rate := wpm\<rparr>))"

definition SetVolume :: "int \<Rightarrow> Context \<Rightarrow> outcome \<times> Context" where
  "SetVolume percentage ctx =
     (if percentage < 0
      then (Panicked ''espeak: Context.SetVolume: percentage must not be negative'', ctx)
      else (Done, (init ctx)\<lparr>volume := percentage\<rparr>))"

definition SetPitch :: "int \<Rightarrow> Context \<Rightarrow> outcome \<times> Context" where
  "SetPitch p ctx =
     (if p < 0 \<or> p > 100
      then (Panicked ''espeak: Context.SetPitch: pitch must be between 0 and 100'', ctx)
      else (Done, (init ctx)\<lparr>pitch := p\<rparr>))"

definition SetRange :: "int \<Rightarrow> Context \<Rightarrow> outcome \<times> Context" where
  "SetRange t ctx =
     (if t < 0 \<or> t > 100
      then (Panicked ''espeak: Context.SetRange: tone must be between 0 and 100'', ctx)
      else (Done, (init ctx)\<lparr>tone := t\<rparr>))"

section \<open>The engine binding\<close>

text \<open>
  doc.go calls package-level functions that the platform files of the repository
  define (\<^verbatim>\<open>setRate\<close>, \<^verbatim>\<open>setVolume\<close>, \<^verbatim>\<open>setPitch\<close>, \<^verbatim>\<open>setTone\<close>,
  \<^verbatim>\<open>setVoice\<close> and \<^verbatim>\<open>synthesize\<close>). They are parameters here: a binding over
  an engine state \<open>'e\<close> of any type. Each push returns a nil or non-nil error and
  the engine state it leaves; \<^verbatim>\<open>synthesize(text, ctx)\<close> also receives the Context and
  may change it.
\<close>

record 'e Binding =
  setRate :: "int \<Rightarrow> 'e \<Rightarrow> go_error option \<times> 'e"
  setVolume :: "int \<Rightarrow> 'e \<Rightarrow> go_error option \<times> 'e"
  setPitch :: "int \<Rightarrow> 'e \<Rightarrow> go_error option \<times> 'e"
  setTone :: "int \<Rightarrow> 'e \<Rightarrow> go_error option \<times> 'e"
  setVoice ::
    "string \<Rightarrow> string \<Rightarrow> Gender \<Rightarrow> 8 word \<Rightarrow> 8 word \<Rightarrow> 'e \<Rightarrow> go_error option \<times> 'e"
  synthesize :: "string \<Rightarrow> Context \<Rightarrow> 'e \<Rightarrow> outcome \<times> Context \<times> 'e"

section \<open>Voice selection and synthesis (doc.go)\<close>

definition validVoice ::
  "'e Binding \<Rightarrow> string \<Rightarrow> string \<Rightarrow> Gender \<Rightarrow> 8 word \<Rightarrow> 8 word \<Rightarrow> 'e
     \<Rightarrow> go_error option \<times> 'e" where
  "validVoice B n l g a v e = setVoice B n l g a v e"

definition SetVoiceProperties ::
  "'e Binding \<Rightarrow> string \<Rightarrow> string \<Rightarrow> Gender \<Rightarrow> 8 word \<Rightarrow> 8 word \<Rightarrow> Context \<Rightarrow> 'e
     \<Rightarrow> outcome \<times> Context \<times> 'e" where
  "SetVoiceProperties B n l g a v ctx e =
     (case validVoice B n l g a v e of
        (Some err, e1) \<Rightarrow> (Failed err, ctx, e1)
      | (None, e1) \<Rightarrow>
          (let ctx1 = init ctx
           in (Done,
               ctx1\<lparr>voice := (voice ctx1)\<lparr>name := n, language := l, gender := g,
                                          age := a, variant := v\<rparr>\<rparr>,
               e1)))"

definition SetVoice :: "'e Binding \<Rightarrow> string \<Rightarrow> Context \<Rightarrow> 'e \<Rightarrow> outcome \<times> Context \<times> 'e" where
  "SetVoice B n ctx e =
     (if n = [] then (Failed (ErrorsNew ''espeak: missing name in SetVoice''), ctx, e)
      else SetVoiceProperties B n [] Unknown 0 0 ctx e)"

text \<open>The method \<^verbatim>\<open>(*Context).synthesize\<close>; the binding's field is the package-level function.\<close>

definition Context_synthesize ::
  "'e Binding \<Rightarrow> string \<Rightarrow> Context \<Rightarrow> 'e \<Rightarrow> outcome \<times> Context \<times> 'e" where
  "Context_synthesize B text ctx e =
     (case setRate B (rate ctx) e of
        (Some err, e1) \<Rightarrow> (Failed err, ctx, e1)
      | (None, e1) \<Rightarrow>
     (case setVolume B (volume ctx) e1 of
        (Some err, e2) \<Rightarrow> (Failed err, ctx, e2)
      | (None, e2) \<Rightarrow>
     (case setPitch B (pitch ctx) e2 of
        (Some err, e3) \<Rightarrow> (Failed err, ctx, e3)
      | (None, e3) \<Rightarrow>
     (case setTone B (tone ctx) e3 of
        (Some err, e4) \<Rightarrow> (Failed err, ctx, e4)
      | (None, e4) \<Rightarrow>
     (case setVoice B (name (voice ctx)) (language (voice ctx)) (gender (voice ctx))
             (age (voice ctx)) (variant (voice ctx)) e4 of
        (Some err, e5) \<Rightarrow> (Failed err, ctx, e5)
      | (None, e5) \<Rightarrow> synthesize B text ctx e5)))))"

definition SynthesizeText ::
  "'e Binding \<Rightarrow> string \<Rightarrow> Context \<Rightarrow> 'e \<Rightarrow> outcome \<times> Context \<times> 'e" where
  "SynthesizeText B text ctx e = Context_synthesize B text (init ctx) e"

section \<open>Pushes in order: the reference reading\<close>

text \<open>
  The five parameter pushes as data, and the plain reading of "push them in this order
  and abort on the first failure": \<open>pushAll\<close> goes through a list of pushes from left
  to right, threads the engine state, and stops at the first push the engine refuses.
  It returns the error (if any), the pushes it has made, and the engine state.
\<close>

datatype push =
  PushRate int | PushVolume int | PushPitch int | PushRange int | PushVoice voice_query

fun perform :: "'e Binding \<Rightarrow> push \<Rightarrow> 'e \<Rightarrow> go_error option \<times> 'e" where
  "perform B (PushRate v) e = setRate B v e"
| "perform B (PushVolume v) e = setVolume B v e"
| "perform B (PushPitch v) e = setPitch B v e"
| "perform B (PushRange v) e = setTone B v e"
| "perform B (PushVoice q) e = setVoice B (name q) (language q) (gender q) (age q) (variant q) e"

fun pushAll :: "'e Binding \<Rightarrow> push list \<Rightarrow> 'e \<Rightarrow> go_error option \<times> push list \<times> 'e" where
  "pushAll B [] e = (None, [], e)"
| "pushAll B (p # ps) e =
     (case perform B p e of
        (Some err, e1) \<Rightarrow> (Some err, [p], e1)
      | (None, e1) \<Rightarrow> (case pushAll B ps e1 of (r, made, e2) \<Rightarrow> (r, p # made, e2)))"

definition storedPushes :: "Context \<Rightarrow> push list" where
  "storedPushes ctx =
     [PushRate (rate ctx), PushVolume (volume ctx), PushPitch (pitch ctx),
      PushRange (tone ctx), PushVoice (voice ctx)]"

text \<open>
  A binding that records, next to the state of the binding it wraps, every call that
  reaches the engine, in the order of arrival.
\<close>

datatype call = Pushed push | Synthesized string

definition recording :: "'e Binding \<Rightarrow> ('e \<times> call list) Binding" where
  "recording B =
     \<lparr>setRate = (\<lambda>v (e, log). case setRate B v e of
         (r, e1) \<Rightarrow> (r, (e1, log @ [Pushed (PushRate v)]))),
      setVolume = (\<lambda>v (e, log). case setVolume B v e of
         (r, e1) \<Rightarrow> (r, (e1, log @ [Pushed (PushVolume v)]))),
      setPitch = (\<lambda>v (e, log). case setPitch B v e of
         (r, e1) \<Rightarrow> (r, (e1, log @ [Pushed (PushPitch v)]))),
      setTone = (\<lambda>v (e, log). case setTone B v e of
         (r, e1) \<Rightarrow> (r, (e1, log @ [Pushed (PushRange v)]))),
      setVoice = (\<lambda>n l g a v (e, log). case setVoice B n l g a v e of
         (r, e1) \<Rightarrow>
           (r, (e1, log @ [Pushed (PushVoice
                  \<lparr>name = n, language = l, gender = g, age = a, variant = v\<rparr>)]))),
      synthesize = (\<lambda>text ctx (e, log). case synthesize B text ctx e of
         (out, ctx1, e1) \<Rightarrow> (out, ctx1, (e1, log @ [Synthesized text])))\<rparr>"

text \<open>
  A small engine for examples: it has no state, refuses exactly the pushes of a given
  list with a fixed error, and its synthesis call returns at once and leaves the
  Context alone.
\<close>

definition refusal :: go_error where
  "refusal = EspeakError \<lparr>Code = 1, Message = ''refused''\<rparr>"

definition answer :: "push list \<Rightarrow> push \<Rightarrow> go_error option" where
  "answer bad p = (if p \<in> set bad then Some refusal else None)"

definition scripted :: "push list \<Rightarrow> unit Binding" where
  "scripted bad =
     \<lparr>setRate = (\<lambda>v e. (answer bad (PushRate v), e)),
      setVolume = (\<lambda>v e. (answer bad (PushVolume v), e)),
      setPitch = (\<lambda>v e. (answer bad (PushPitch v), e)),
      setTone = (\<lambda>v e. (answer bad (PushRange v), e)),
      setVoice = (\<lambda>n l g a v e. (answer bad (PushVoice
         \<lparr>name = n, language = l, gender = g, age = a, variant = v\<rparr>), e)),
      synthesize = (\<lambda>text ctx e. (Done, ctx, e))\<rparr>"

section \<open>Event records (layout constants of the js binding)\<close>

definition espeakEVENT_LIST_TERMINATED :: int where "espeakEVENT_LIST_TERMINATED = 0"
definition espeakEVENT_WORD :: int where "espeakEVENT_WORD = 1"
definition espeakEVENT_SENTENCE :: int where "espeakEVENT_SENTENCE = 2"
definition espeakEVENT_MARK :: int where "espeakEVENT_MARK = 3"
definition espeakEVENT_PLAY :: int where "espeakEVENT_PLAY = 4"
definition espeakEVENT_END :: int where "espeakEVENT_END = 5"
definition espeakEVENT_MSG_TERMINATED :: int where "espeakEVENT_MSG_TERMINATED = 6"
definition espeakEVENT_PHONEME :: int where "espeakEVENT_PHONEME = 7"

definition eventSize :: nat where "eventSize = 36"
definition eventTypeOffset :: nat where "eventTypeOffset = 0"
definition eventTextPositionOffset :: nat where "eventTextPositionOffset = 8"
definition eventLengthOffset :: nat where "eventLengthOffset = 12"
definition eventAudioPositionOffset :: nat where "eventAudioPositionOffset = 16"
definition eventNumberOffset :: nat where "eventNumberOffset = 28"
definition eventNameOffset :: nat where "eventNameOffset = 28"
definition eventStringOffset :: nat where "eventStringOffset = 28"

section \<open>The Event Decoder\<close>

text \<open>
  Modelled from the spec: the function that decodes event records is not in doc.go;
  only the layout constants above and the type \<open>SynthEvent\<close> are. The spec's words:
  each record has a fixed size and holds a type tag, a text position, a length, an
  audio position (scaled to a duration by a fixed factor, here the parameter
  \<open>scale\<close>) and a union region read as an integer for Word and Sentence and as a
  short embedded string for Mark, Play and Phoneme. Fields are taken as 32-bit
  little-endian signed integers, a string as the bytes of the union region before its
  first zero byte.
\<close>

definition getInt32 :: "byte list \<Rightarrow> nat \<Rightarrow> int" where
  "getInt32 bs off =
     (let u = uint (bs ! off) + 256 * uint (bs ! (off + 1)) + 65536 * uint (bs ! (off + 2))
              + 16777216 * uint (bs ! (off + 3))
      in if u < 2147483648 then u else u - 4294967296)"

definition getString :: "byte list \<Rightarrow> nat \<Rightarrow> string" where
  "getString bs off =
     map (\<lambda>b. char_of (unat b)) (takeWhile (\<lambda>b. b \<noteq> 0) (drop off (take eventSize bs)))"

text \<open>
  Modelled from the spec: one record to one \<open>SynthEvent\<close>. The four leading fields are
  read for every type; the union region fills \<open>Number\<close>, \<open>Name\<close> or \<open>Phoneme\<close> as
  the type tag selects, and the fields it does not select keep their zero value.
\<close>

definition decodeEvent :: "int \<Rightarrow> byte list \<Rightarrow> SynthEvent" where
  "decodeEvent scale r =
     (let ty = getInt32 r eventTypeOffset;
          ev = \<lparr>Type = word_of_int ty,
                TextPosition = getInt32 r eventTextPositionOffset,
                Length = getInt32 r eventLengthOffset,
                AudioPosition = getInt32 r eventAudioPositionOffset * scale,
                Number = 0, Name = [], Phoneme = []\<rparr>
      in if ty = espeakEVENT_WORD \<or> ty = espeakEVENT_SENTENCE
           then ev\<lparr>Number := getInt32 r eventNumberOffset\<rparr>
         else if ty = espeakEVENT_MARK \<or> ty = espeakEVENT_PLAY
           then ev\<lparr>Name := getString r eventNameOffset\<rparr>
         else if ty = espeakEVENT_PHONEME
           then ev\<lparr>Phoneme := getString r eventStringOffset\<rparr>
         else ev)"

datatype fault = ConsistencyFault

text \<open>
  Modelled from the spec: decoding goes record by record until the sentinel type tag
  and reads nothing after it; fewer bytes than one record is a consistency fault.
\<close>

function decodeEvents :: "int \<Rightarrow> byte list \<Rightarrow> fault + SynthEvent list" where
  "decodeEvents scale bs =
     (if length bs < eventSize then Inl ConsistencyFault
      else if getInt32 bs eventTypeOffset = espeakEVENT_LIST_TERMINATED then Inr []
      else (case decodeEvents scale (drop eventSize bs) of
              Inl f \<Rightarrow> Inl f
            | Inr evs \<Rightarrow> Inr (decodeEvent scale (take eventSize bs) # evs)))"
  by pat_completeness auto
termination
  by (relation "measure (\<lambda>(scale, bs). length bs)") (auto simp: eventSize_def)

declare decodeEvents.simps [simp del]

text \<open>What the claim about decoding speaks of: records, the sentinel, relevant fields.\<close>

definition wellFormed :: "byte list \<Rightarrow> bool" where
  "wellFormed r \<longleftrightarrow>
     length r = eventSize \<and>
     espeakEVENT_WORD \<le> getInt32 r eventTypeOffset \<and>
     getInt32 r eventTypeOffset \<le> espeakEVENT_PHONEME"

definition isSentinel :: "byte list \<Rightarrow> bool" where
  "isSentinel r \<longleftrightarrow>
     length r = eventSize \<and> getInt32 r eventTypeOffset = espeakEVENT_LIST_TERMINATED"




text \<open>
  Example records: a word (text position 1, length 5, at 300 time units, number 2), a
  mark named m1 (text position 7, at 400 time units), the same mark with 5 in its
  length field, and the sentinel.
\<close>

definition wordRecord :: "byte list" where
  "wordRecord =
     [1, 0, 0, 0,  0, 0, 0, 0,  1, 0, 0, 0,  5, 0, 0, 0,  44, 1, 0, 0,
      0, 0, 0, 0,  0, 0, 0, 0,  2, 0, 0, 0,  0, 0, 0, 0]"



definition sentinelRecord :: "byte list" where
  "sentinelRecord = replicate 36 0"

section \<open>The package-level synthesis call\<close>

text \<open>
  What the engine hands to the streaming callback, in emission order: chunks of PCM
  samples and blocks of raw event-record bytes.
\<close>

datatype chunk = SampleChunk "16 word list" | EventBlock "byte list"

text \<open>
  Modelled from the spec: the streaming callback is not in doc.go. It appends every
  delivered sample chunk to \<open>Samples\<close> and the records decoded from every delivered
  event block to \<open>Events\<close>; malformed event bytes abort the call.
\<close>

fun deliver :: "int \<Rightarrow> chunk list \<Rightarrow> Context \<Rightarrow> fault option \<times> Context" where
  "deliver scale [] ctx = (None, ctx)"
| "deliver scale (SampleChunk smp # cs) ctx =
     deliver scale cs (ctx\<lparr>Samples := Samples ctx @ smp\<rparr>)"
| "deliver scale (EventBlock bs # cs) ctx =
     (case decodeEvents scale bs of
        Inl f \<Rightarrow> (Some f, ctx)
      | Inr evs \<Rightarrow> deliver scale cs (ctx\<lparr>Events := Events ctx @ evs\<rparr>))"

text \<open>
  Modelled from the spec: the package-level \<^verbatim>\<open>synthesize(text, ctx)\<close> is not in
  doc.go. By the spec the samples and events sequences are cleared and repopulated by
  each synthesis call, the engine's call runs with the text and the streaming callback,
  and the call fails with the engine's error if the engine reports one. The engine's
  own call is the parameter \<open>run\<close>: from the text and the engine state it gives the
  chunks it delivers, its error or nil, and the engine state it leaves. A consistency
  fault of the decoder is fatal; the spec gives no text for it, the message below
  stands for it.
\<close>

definition specSynthesize ::
  "int \<Rightarrow> (string \<Rightarrow> 'e \<Rightarrow> (chunk list \<times> go_error option) \<times> 'e)
     \<Rightarrow> string \<Rightarrow> Context \<Rightarrow> 'e \<Rightarrow> outcome \<times> Context \<times> 'e" where
  "specSynthesize scale run text ctx e =
     (case run text e of
        ((chunks, r), e1) \<Rightarrow>
          (case deliver scale chunks (ctx\<lparr>Samples := [], Events := []\<rparr>) of
             (Some f, ctx1) \<Rightarrow> (Panicked ''espeak: malformed event record'', ctx1, e1)
           | (None, ctx1) \<Rightarrow>
               (case r of None \<Rightarrow> (Done, ctx1, e1) | Some err \<Rightarrow> (Failed err, ctx1, e1))))"

text \<open>The output of one utterance, read off the chunks the engine delivered for it.\<close>

fun samplesOf :: "chunk list \<Rightarrow> 16 word list" where
  "samplesOf [] = []"
| "samplesOf (SampleChunk smp # cs) = smp @ samplesOf cs"
| "samplesOf (EventBlock bs # cs) = samplesOf cs"

fun blocksOf :: "chunk list \<Rightarrow> byte list list" where
  "blocksOf [] = []"
| "blocksOf (SampleChunk smp # cs) = blocksOf cs"
| "blocksOf (EventBlock bs # cs) = bs # blocksOf cs"

fun decodeAll :: "int \<Rightarrow> byte list list \<Rightarrow> fault + SynthEvent list" where
  "decodeAll scale [] = Inr []"
| "decodeAll scale (b # bs) =
     (case decodeEvents scale b of
        Inl f \<Rightarrow> Inl f
      | Inr evs \<Rightarrow>
          (case decodeAll scale bs of Inl f \<Rightarrow> Inl f | Inr later \<Rightarrow> Inr (evs @ later)))"

text \<open>
  An engine for examples: whatever the text, it delivers one sample per character of
  the text (each sample the length of the text), then one event block holding a word
  record and the sentinel, and succeeds.
\<close>

definition demoRun :: "string \<Rightarrow> unit \<Rightarrow> (chunk list \<times> go_error option) \<times> unit" where
  "demoRun text e =
     (([SampleChunk (replicate (length text) (of_nat (length text))),
        EventBlock (wordRecord @ sentinelRecord)], None), e)"

definition demoBinding :: "unit Binding" where
  "demoBinding = (scripted [])\<lparr>synthesize := specSynthesize 1000000 demoRun\<rparr>"

section \<open>Properties of getters and setters\<close>

lemma init_isInit: "isInit (init ctx)"
  by (simp add: init_def)

lemma init_keeps_voice: "voice (init ctx) = voice ctx"
  by (simp add: init_def)

lemma init_of_initialised: "isInit ctx \<Longrightarrow> init ctx = ctx"
  by (simp add: init_def)



text \<open>
  Claim C5. For every Context and every value within the documented bounds (rate from
  80 to 450, volume at least 0, pitch and range from 0 to 100), the setter returns
  normally and the getter called on the Context it leaves returns the value set.
\<close>

theorem set_then_get:
  "(80 \<le> r \<and> r \<le> 450 \<longrightarrow>
      fst (SetRate r ctx) = Done \<and> fst (Rate (snd (SetRate r ctx))) = r) \<and>
   (0 \<le> v \<longrightarrow>
      fst (SetVolume v ctx) = Done \<and> fst (Volume (snd (SetVolume v ctx))) = v) \<and>
   (0 \<le> p \<and> p \<le> 100 \<longrightarrow>
      fst (SetPitch p ctx) = Done \<and> fst (Pitch (snd (SetPitch p ctx))) = p) \<and>
   (0 \<le> t \<and> t \<le> 100 \<longrightarrow>
      fst (SetRange t ctx) = Done \<and> fst (Range_ctx (snd (SetRange t ctx))) = t)"
  by (simp add: SetRate_def SetVolume_def SetPitch_def SetRange_def
        Rate_def Volume_def Pitch_def Range_ctx_def init_def)

theorem set_then_get_witness:
  "fst (Rate (snd (SetRate 200 zeroContext))) = 200 \<and>
   fst (Volume (snd (SetVolume 130 zeroContext))) = 130 \<and>
   fst (Pitch (snd (SetPitch 0 zeroContext))) = 0 \<and>
   fst (Range_ctx (snd (SetRange 100 zeroContext))) = 100"
  using set_then_get [of 200 zeroContext 130 0 100] by simp

text \<open>
  Claim C6. For every Context and every value outside the documented bounds, the
  setter panics with its invalid-argument message and the whole Context (the four
  numeric parameters, the initialised flag, the voice query, Samples and Events) is
  what it was before the call.
\<close>

theorem out_of_bounds_rejected:
  "(r < 80 \<or> 450 < r \<longrightarrow>
      SetRate r ctx =
        (Panicked ''espeak: Context.SetRate: wpm must be between 80 and 450'', ctx)) \<and>
   (v < 0 \<longrightarrow>
      SetVolume v ctx =
        (Panicked ''espeak: Context.SetVolume: percentage must not be negative'', ctx)) \<and>
   (p < 0 \<or> 100 < p \<longrightarrow>
      SetPitch p ctx =
        (Panicked ''espeak: Context.SetPitch: pitch must be between 0 and 100'', ctx)) \<and>
   (t < 0 \<or> 100 < t \<longrightarrow>
      SetRange t ctx =
        (Panicked ''espeak: Context.SetRange: tone must be between 0 and 100'', ctx))"
  by (simp add: SetRate_def SetVolume_def SetPitch_def SetRange_def)

theorem out_of_bounds_rejected_witness:
  "SetRate 79 zeroContext =
     (Panicked ''espeak: Context.SetRate: wpm must be between 80 and 450'', zeroContext) \<and>
   SetVolume (- 1) zeroContext =
     (Panicked ''espeak: Context.SetVolume: percentage must not be negative'', zeroContext) \<and>
   SetPitch 101 zeroContext =
     (Panicked ''espeak: Context.SetPitch: pitch must be between 0 and 100'', zeroContext) \<and>
   SetRange (- 5) zeroContext =
     (Panicked ''espeak: Context.SetRange: tone must be between 0 and 100'', zeroContext)"
  using out_of_bounds_rejected [of 79 zeroContext "- 1" 101 "- 5"] by simp

text \<open>
  Claim C10. On an already initialised Context and for an in-bounds value, each of
  \<open>SetRate\<close>, \<open>SetVolume\<close>, \<open>SetPitch\<close> and \<open>SetRange\<close> changes its own field and
  nothing else: the Context it leaves is the old one with that one field updated, so
  the other three numeric parameters, the voice query, Samples and Events are as
  before.
\<close>

theorem setter_frame:
  "isInit ctx \<Longrightarrow>
   (80 \<le> r \<and> r \<le> 450 \<longrightarrow> SetRate r ctx = (Done, ctx\<lparr>rate := r\<rparr>)) \<and>
   (0 \<le> v \<longrightarrow> SetVolume v ctx = (Done, ctx\<lparr>volume := v\<rparr>)) \<and>
   (0 \<le> p \<and> p \<le> 100 \<longrightarrow> SetPitch p ctx = (Done, ctx\<lparr>pitch := p\<rparr>)) \<and>
   (0 \<le> t \<and> t \<le> 100 \<longrightarrow> SetRange t ctx = (Done, ctx\<lparr>tone := t\<rparr>))"
  by (simp add: SetRate_def SetVolume_def SetPitch_def SetRange_def init_def)

theorem setter_frame_witness:
  "isInit (init zeroContext) \<and>
   SetRate 300 (init zeroContext) = (Done, (init zeroContext)\<lparr>rate := 300\<rparr>) \<and>
   SetVolume 20 (init zeroContext) = (Done, (init zeroContext)\<lparr>volume := 20\<rparr>) \<and>
   SetPitch 70 (init zeroContext) = (Done, (init zeroContext)\<lparr>pitch := 70\<rparr>) \<and>
   SetRange 0 (init zeroContext) = (Done, (init zeroContext)\<lparr>tone := 0\<rparr>)"
proof -
  have h: "isInit (init zeroContext)" by (rule init_isInit)
  show ?thesis using h setter_frame [OF h, of 300 20 70 0] by simp
qed

section \<open>Voice selection\<close>

text \<open>
  Claim C3. For every Context and every voice query, \<open>SetVoiceProperties\<close> succeeds
  exactly when the binding's voice-selection call accepts the combination. When the
  engine refuses, the engine's error is returned and the Context left behind is the
  Context as it was, voice query and all other state included. When the engine
  accepts, the five voice fields are stored (on the Context as lazy initialisation
  leaves it). In both cases the engine has received exactly this one call.
\<close>

theorem SetVoiceProperties_iff_engine_accepts:
  "(fst (SetVoiceProperties B n l g a v ctx e) = Done \<longleftrightarrow>
      fst (setVoice B n l g a v e) = None) \<and>
   (\<forall>err. fst (setVoice B n l g a v e) = Some err \<longrightarrow>
      SetVoiceProperties B n l g a v ctx e =
        (Failed err, ctx, snd (setVoice B n l g a v e))) \<and>
   (fst (setVoice B n l g a v e) = None \<longrightarrow>
      SetVoiceProperties B n l g a v ctx e =
        (Done,
         (init ctx)\<lparr>voice := \<lparr>name = n, language = l, gender = g, age = a, variant = v\<rparr>\<rparr>,
         snd (setVoice B n l g a v e)))"
  by (cases "setVoice B n l g a v e")
     (auto simp: SetVoiceProperties_def validVoice_def Let_def split: option.splits)

theorem SetVoiceProperties_iff_engine_accepts_witness:
  "SetVoiceProperties (scripted [PushVoice \<lparr>name = ''does-not-exist'', language = [],
       gender = 0, age = 0, variant = 0\<rparr>]) ''does-not-exist'' [] 0 0 0
     (snd (SetRate 200 zeroContext)) ()
   = (Failed refusal, snd (SetRate 200 zeroContext), ()) \<and>
   SetVoiceProperties (scripted []) ''en'' ''en-gb'' Female 30 1 zeroContext ()
   = (Done,
      (init zeroContext)\<lparr>voice := \<lparr>name = ''en'', language = ''en-gb'', gender = Female,
         age = 30, variant = 1\<rparr>\<rparr>, ())"
  using SetVoiceProperties_iff_engine_accepts
      [where B = "scripted [PushVoice \<lparr>name = ''does-not-exist'', language = [],
          gender = 0, age = 0, variant = 0\<rparr>]"
        and n = "''does-not-exist''" and l = "[]" and g = 0 and a = 0 and v = 0
        and ctx = "snd (SetRate 200 zeroContext)" and e = "()"]
    SetVoiceProperties_iff_engine_accepts
      [where B = "scripted []" and n = "''en''" and l = "''en-gb''" and g = Female
        and a = 30 and v = 1 and ctx = zeroContext and e = "()"]
  by (simp add: scripted_def answer_def)

text \<open>
  Claim C8, as the code has it. \<open>SetVoice\<close> with an empty name returns an ordinary
  error value, the one made by \<^verbatim>\<open>errors.New("espeak: missing name in SetVoice")\<close>;
  it does not panic. It returns before any call to the engine binding (the engine
  state is the one it was given, whatever the binding) and leaves the Context as it
  was.
\<close>

theorem SetVoice_empty_name_returns_error:
  "SetVoice B [] ctx e = (Failed (ErrorsNew ''espeak: missing name in SetVoice''), ctx, e)"
  by (simp add: SetVoice_def)

text \<open>
  The claim as stated (a fail-fast, unrecoverable fault) does not hold: on the zero
  Context the call ends by returning an error, which is not a panic.
\<close>

theorem SetVoice_empty_name_is_no_panic:
  "fst (SetVoice (scripted []) [] zeroContext ()) =
     Failed (ErrorsNew ''espeak: missing name in SetVoice'') \<and>
   fst (SetVoice (scripted []) [] zeroContext ()) \<noteq>
     Panicked ''espeak: missing name in SetVoice''"
  by (simp add: SetVoice_def)

section \<open>Synthesis: the order of the pushes\<close>

lemma recording_simps:
  "setRate (recording B) v (e, log) = (fst (setRate B v e), (snd (setRate B v e), log @ [Pushed (PushRate v)]))"
  "setVolume (recording B) v (e, log) = (fst (setVolume B v e), (snd (setVolume B v e), log @ [Pushed (PushVolume v)]))"
  "setPitch (recording B) v (e, log) = (fst (setPitch B v e), (snd (setPitch B v e), log @ [Pushed (PushPitch v)]))"
  "setTone (recording B) v (e, log) = (fst (setTone B v e), (snd (setTone B v e), log @ [Pushed (PushRange v)]))"
  "setVoice (recording B) n l g a w (e, log) =
     (fst (setVoice B n l g a w e), (snd (setVoice B n l g a w e),
       log @ [Pushed (PushVoice \<lparr>name = n, language = l, gender = g, age = a, variant = w\<rparr>)]))"
  "synthesize (recording B) text ctx (e, log) =
     (fst (synthesize B text ctx e), fst (snd (synthesize B text ctx e)),
      (snd (snd (synthesize B text ctx e)), log @ [Synthesized text]))"
  by (simp_all add: recording_def split: prod.splits)

lemma perform_recording:
  "perform (recording B) p (e, log) = (fst (perform B p e), (snd (perform B p e), log @ [Pushed p]))"
  by (cases p) (simp_all add: recording_simps)

lemma pushAll_recording:
  "pushAll (recording B) ps (e, log) =
     (case pushAll B ps e of (r, made, e1) \<Rightarrow> (r, made, (e1, log @ map Pushed made)))"
proof (induction ps arbitrary: e log)
  case Nil
  show ?case by simp
next
  case (Cons p ps)
  show ?case
  proof (cases "perform B p e")
    case (Pair r e1)
    show ?thesis
    proof (cases r)
      case None
      with Pair Cons [of e1 "log @ [Pushed p]"] show ?thesis
        by (simp add: perform_recording split: prod.splits)
    next
      case (Some err)
      with Pair show ?thesis by (simp add: perform_recording)
    qed
  qed
qed

lemma pushAll_made:
  "pushAll B ps e = (r, made, e1) \<Longrightarrow>
     (r = None \<longrightarrow> made = ps) \<and> (r \<noteq> None \<longrightarrow> (\<exists>k < length ps. made = take (Suc k) ps))"
proof (induction ps arbitrary: e r made e1)
  case Nil
  then show ?case by simp
next
  case (Cons p ps)
  show ?case
  proof (cases "perform B p e")
    case (Pair r0 e0)
    show ?thesis
    proof (cases r0)
      case None
      obtain r' made' e' where rec: "pushAll B ps e0 = (r', made', e')"
        by (cases "pushAll B ps e0") auto
      from Cons.prems Pair None rec have eqs: "r = r'" "made = p # made'" "e1 = e'"
        by simp_all
      from Cons.IH [OF rec] eqs show ?thesis by auto
    next
      case (Some err)
      with Cons.prems Pair have "r = Some err" "made = [p]" by simp_all
      then show ?thesis by auto
    qed
  qed
qed

lemma Context_synthesize_pushAll:
  "Context_synthesize B text ctx e =
     (case pushAll B (storedPushes ctx) e of
        (Some err, made, e1) \<Rightarrow> (Failed err, ctx, e1)
      | (None, made, e1) \<Rightarrow> synthesize B text ctx e1)"
  by (simp add: Context_synthesize_def storedPushes_def split: prod.splits option.splits)

text \<open>
  Claim C1, as the code has it. \<open>SynthesizeText\<close> first runs lazy initialisation (a
  Context that is not initialised yet gets rate 175, volume 100, pitch 50 and tone 50).
  It then pushes the stored rate, volume, pitch, range and voice query to the engine
  binding in exactly that order: the calls that reach a recording binding are the
  pushes that \<open>pushAll\<close> makes on that list, appended to the log in order. If a push
  fails, its error is returned, the calls made are a non-empty initial segment of the
  five, and neither a later push nor the synthesis call is made; the Context left
  behind is the Context as initialisation left it, so the voice query is unchanged and,
  for a Context that was already initialised, all fields are. If no push fails, all
  five are made and the synthesis call follows them.
\<close>

theorem SynthesizeText_pushes_in_order:
  "case pushAll B (storedPushes (init ctx)) e of
     (Some err, made, e1) \<Rightarrow>
        SynthesizeText (recording B) t ctx (e, log) =
          (Failed err, init ctx, (e1, log @ map Pushed made)) \<and>
        (\<exists>k < 5. made = take (Suc k) (storedPushes (init ctx))) \<and>
        voice (init ctx) = voice ctx \<and>
        (isInit ctx \<longrightarrow> init ctx = ctx)
   | (None, made, e1) \<Rightarrow>
        made = storedPushes (init ctx) \<and>
        SynthesizeText (recording B) t ctx (e, log) =
          (case synthesize B t (init ctx) e1 of
             (out, ctx1, e2) \<Rightarrow>
               (out, ctx1, (e2, log @ map Pushed made @ [Synthesized t])))"
proof -
  obtain r made e1 where run: "pushAll B (storedPushes (init ctx)) e = (r, made, e1)"
    by (cases "pushAll B (storedPushes (init ctx)) e") auto
  have len: "length (storedPushes (init ctx)) = 5"
    by (simp add: storedPushes_def)
  have rec: "pushAll (recording B) (storedPushes (init ctx)) (e, log) =
      (r, made, (e1, log @ map Pushed made))"
    by (simp add: pushAll_recording run)
  have call: "SynthesizeText (recording B) t ctx (e, log) =
      (case r of Some err \<Rightarrow> (Failed err, init ctx, (e1, log @ map Pushed made))
       | None \<Rightarrow> synthesize (recording B) t (init ctx) (e1, log @ map Pushed made))"
    by (simp add: SynthesizeText_def Context_synthesize_pushAll rec split: option.splits)
  show ?thesis
  proof (cases r)
    case None
    with pushAll_made [OF run] have "made = storedPushes (init ctx)" by simp
    with None run call show ?thesis
      by (simp add: recording_simps split: prod.splits)
  next
    case (Some err)
    with pushAll_made [OF run] len
    have "\<exists>k < 5. made = take (Suc k) (storedPushes (init ctx))" by simp
    with Some run call show ?thesis
      by (simp add: init_keeps_voice init_of_initialised)
  qed
qed

theorem SynthesizeText_pushes_in_order_witness:
  "isInit (snd (SetRate 200 zeroContext)) \<and>
   SynthesizeText (recording (scripted [PushPitch 50])) ''hi''
       (snd (SetRate 200 zeroContext)) ((), []) =
     (Failed refusal, snd (SetRate 200 zeroContext),
      ((), [Pushed (PushRate 200), Pushed (PushVolume 100), Pushed (PushPitch 50)]))"
  using SynthesizeText_pushes_in_order
    [where B = "scripted [PushPitch 50]" and ctx = "snd (SetRate 200 zeroContext)"
       and e = "()" and t = "''hi''" and log = "[]"]
  by (simp add: storedPushes_def SetRate_def init_def zeroContext_def scripted_def
        answer_def)

text \<open>
  The claim as stated, for every Context, does not hold for one that is not initialised
  yet: on the zero Context with an engine that refuses the rate, the call fails and the
  stored rate is 175 afterwards, where it was 0 before.
\<close>

theorem SynthesizeText_changes_fresh_Context:
  "fst (SynthesizeText (scripted [PushRate 175]) ''hi'' zeroContext ()) = Failed refusal \<and>
   rate (fst (snd (SynthesizeText (scripted [PushRate 175]) ''hi'' zeroContext ()))) = 175 \<and>
   rate zeroContext = 0"
  by (simp add: SynthesizeText_def Context_synthesize_def init_def zeroContext_def
        scripted_def answer_def)

section \<open>Decoding event records\<close>

lemma decodeEvents_short: "length bs < eventSize \<Longrightarrow> decodeEvents scale bs = Inl ConsistencyFault"
  by (simp add: decodeEvents.simps)

lemma getInt32_append: "off + 4 \<le> length r \<Longrightarrow> getInt32 (r @ bs) off = getInt32 r off"
  by (simp add: getInt32_def nth_append)

lemma decodeEvents_sentinel: "isSentinel s \<Longrightarrow> decodeEvents scale (s @ rest) = Inr []"
  by (subst decodeEvents.simps)
     (simp add: isSentinel_def getInt32_append eventSize_def eventTypeOffset_def)

lemma decodeEvents_record:
  assumes "wellFormed r"
  shows "decodeEvents scale (r @ bs) =
       (case decodeEvents scale bs of Inl f \<Rightarrow> Inl f
        | Inr evs \<Rightarrow> Inr (decodeEvent scale r # evs))"
proof -
  from assms have len: "length r = eventSize"
    and tag: "getInt32 r eventTypeOffset \<noteq> espeakEVENT_LIST_TERMINATED"
    by (simp_all add: wellFormed_def espeakEVENT_WORD_def espeakEVENT_LIST_TERMINATED_def)
  from len have parts: "take eventSize (r @ bs) = r" "drop eventSize (r @ bs) = bs"
    and long: "\<not> length (r @ bs) < eventSize"
    by simp_all
  from len have "getInt32 (r @ bs) eventTypeOffset = getInt32 r eventTypeOffset"
    by (simp add: getInt32_append eventSize_def eventTypeOffset_def)
  with tag have tag': "getInt32 (r @ bs) eventTypeOffset \<noteq> espeakEVENT_LIST_TERMINATED"
    by simp
  show ?thesis
    by (subst decodeEvents.simps) (simp only: long tag' parts if_False)
qed

lemma decodeEvents_records:
  "list_all wellFormed recs \<Longrightarrow> isSentinel s \<Longrightarrow>
     decodeEvents scale (concat recs @ s @ rest) = Inr (map (decodeEvent scale) recs)"
  by (induction recs) (simp_all add: decodeEvents_sentinel decodeEvents_record)








section \<open>Output of successive synthesis calls\<close>

lemma deliver_ok:
  "deliver scale cs ctx = (None, ctx1) \<Longrightarrow>
     \<exists>evs. decodeAll scale (blocksOf cs) = Inr evs \<and>
       ctx1 = ctx\<lparr>Samples := Samples ctx @ samplesOf cs, Events := Events ctx @ evs\<rparr>"
proof (induction scale cs ctx rule: deliver.induct)
  case (1 scale ctx)
  then show ?case by simp
next
  case (2 scale smp cs ctx)
  from "2.prems" have "deliver scale cs (ctx\<lparr>Samples := Samples ctx @ smp\<rparr>) = (None, ctx1)"
    by simp
  from "2.IH" [OF this] show ?case by auto
next
  case (3 scale bs cs ctx)
  from "3.prems" obtain evs where dec: "decodeEvents scale bs = Inr evs"
    and rest: "deliver scale cs (ctx\<lparr>Events := Events ctx @ evs\<rparr>) = (None, ctx1)"
    by (auto split: sum.splits)
  from "3.IH" [OF dec rest] dec show ?case by auto
qed

lemma specSynthesize_Done:
  assumes "specSynthesize scale run t ctx e = (Done, ctx1, e1)"
  shows "snd (run t e) = e1 \<and>
         Samples ctx1 = samplesOf (fst (fst (run t e))) \<and>
         decodeAll scale (blocksOf (fst (fst (run t e)))) = Inr (Events ctx1)"
proof -
  obtain chunks r e' where run: "run t e = ((chunks, r), e')"
    by (cases "run t e") auto
  obtain f c where del: "deliver scale chunks (ctx\<lparr>Samples := [], Events := []\<rparr>) = (f, c)"
    by (cases "deliver scale chunks (ctx\<lparr>Samples := [], Events := []\<rparr>)") auto
  from assms run del have f: "f = None" and c: "c = ctx1" and e: "e' = e1"
    by (auto simp: specSynthesize_def split: option.splits)
  from deliver_ok [OF del [unfolded f c]] run e show ?thesis by auto
qed

text \<open>
  Claim C7. With the package-level synthesis call as the spec describes it: let a first
  \<open>SynthesizeText\<close> leave the Context \<open>ctx1\<close> and the engine state \<open>e1\<close>, and let a
  second call on them succeed and leave \<open>ctx2\<close>. Take the chunks the engine delivers
  in that second call (after the five pushes). Then \<open>Samples ctx2\<close> is exactly the
  samples of those chunks and \<open>Events ctx2\<close> exactly the events decoded from them;
  when the first call left samples or events, the result is not their concatenation
  with the second call's output.
\<close>

theorem SynthesizeText_replaces_output:
  assumes "synthesize B = specSynthesize scale run"
    and "SynthesizeText B t1 ctx e = (out1, ctx1, e1)"
    and "SynthesizeText B t2 ctx1 e1 = (Done, ctx2, e2)"
  shows "let e5 = snd (snd (pushAll B (storedPushes (init ctx1)) e1));
             chunks = fst (fst (run t2 e5))
         in Samples ctx2 = samplesOf chunks \<and>
            decodeAll scale (blocksOf chunks) = Inr (Events ctx2) \<and>
            (Samples ctx1 \<noteq> [] \<longrightarrow> Samples ctx2 \<noteq> Samples ctx1 @ samplesOf chunks) \<and>
            (Events ctx1 \<noteq> [] \<longrightarrow> Events ctx2 \<noteq> Events ctx1 @ Events ctx2)"
proof -
  obtain r made e5 where run: "pushAll B (storedPushes (init ctx1)) e1 = (r, made, e5)"
    by (cases "pushAll B (storedPushes (init ctx1)) e1") auto
  from assms(3) run have "r = None"
    and "specSynthesize scale run t2 (init ctx1) e5 = (Done, ctx2, e2)"
    by (auto simp: SynthesizeText_def Context_synthesize_pushAll assms(1)
          split: option.splits)
  from specSynthesize_Done [OF this(2)] run show ?thesis
    by (simp add: Let_def)
qed

theorem SynthesizeText_replaces_output_witness:
  "synthesize demoBinding = specSynthesize 1000000 demoRun \<and>
   SynthesizeText demoBinding ''ab'' zeroContext () =
     (Done, (init zeroContext)\<lparr>Samples := [2, 2],
               Events := [decodeEvent 1000000 wordRecord]\<rparr>, ()) \<and>
   SynthesizeText demoBinding ''c''
     ((init zeroContext)\<lparr>Samples := [2, 2], Events := [decodeEvent 1000000 wordRecord]\<rparr>) () =
     (Done, (init zeroContext)\<lparr>Samples := [1],
               Events := [decodeEvent 1000000 wordRecord]\<rparr>, ()) \<and>
   samplesOf (fst (fst (demoRun ''c'' ()))) = [1] \<and>
   [1] \<noteq> [2, 2] @ samplesOf (fst (fst (demoRun ''c'' ())))"
proof -
  have wf: "wellFormed wordRecord"
    by (simp add: wellFormed_def wordRecord_def getInt32_def eventSize_def
          eventTypeOffset_def espeakEVENT_WORD_def espeakEVENT_PHONEME_def)
  have st: "isSentinel sentinelRecord"
    by (simp add: isSentinel_def sentinelRecord_def getInt32_def eventSize_def
          eventTypeOffset_def espeakEVENT_LIST_TERMINATED_def)
  have block: "decodeEvents 1000000 (wordRecord @ sentinelRecord) =
      Inr [decodeEvent 1000000 wordRecord]"
    using decodeEvents_records [of "[wordRecord]" sentinelRecord 1000000 "[]"] wf st
    by simp
  have b: "synthesize demoBinding = specSynthesize 1000000 demoRun"
    by (simp add: demoBinding_def)
  have pushes: "setRate demoBinding = (\<lambda>v e. (None, e))"
    "setVolume demoBinding = (\<lambda>v e. (None, e))"
    "setPitch demoBinding = (\<lambda>v e. (None, e))"
    "setTone demoBinding = (\<lambda>v e. (None, e))"
    "setVoice demoBinding = (\<lambda>n l g a v e. (None, e))"
    by (simp_all add: demoBinding_def scripted_def answer_def)
  have first: "SynthesizeText demoBinding ''ab'' zeroContext () =
      (Done, (init zeroContext)\<lparr>Samples := [2, 2],
                Events := [decodeEvent 1000000 wordRecord]\<rparr>, ())"
    by (simp add: SynthesizeText_def Context_synthesize_def pushes b specSynthesize_def
          demoRun_def block)
  have second: "SynthesizeText demoBinding ''c''
      ((init zeroContext)\<lparr>Samples := [2, 2], Events := [decodeEvent 1000000 wordRecord]\<rparr>) () =
      (Done, (init zeroContext)\<lparr>Samples := [1],
                Events := [decodeEvent 1000000 wordRecord]\<rparr>, ())"
    by (simp add: SynthesizeText_def Context_synthesize_def pushes b specSynthesize_def
          demoRun_def block init_def)
  from SynthesizeText_replaces_output [OF b first second] b first second
  show ?thesis by (simp add: demoRun_def)
qed

end
